theory Spec2Isabelle
  imports Complex_Main "HOL-Library.Sublist" "HOL-Library.List_Lexorder" "HOL-Library.Char_ord"
begin

section \<open>Canonical message model and agent (agents/base.py)\<close>

text \<open>
  A Python \<open>str\<close> is a list of characters; a character stands for the code point of
  its number, so the text that can be written here is the text of code points below 256.
\<close>

text \<open>
  Python exceptions are values. Only the exception class and its message text are kept;
  \<open>str_error\<close> is Python's \<open>str(e)\<close>.
\<close>

datatype error =
    ValueError string
  | ProviderError string
  | NotADirectoryError string
  | FileExistsError string
  | IsADirectoryError string
  | PermissionError string

fun str_error :: "error \<Rightarrow> string" where
  "str_error (ValueError m) = m"
| "str_error (ProviderError m) = m"
| "str_error (NotADirectoryError f) = ''[Errno 20] Not a directory: '' @ [CHR 0x27] @ f @ [CHR 0x27]"
| "str_error (FileExistsError f) = ''[Errno 17] File exists: '' @ [CHR 0x27] @ f @ [CHR 0x27]"
| "str_error (IsADirectoryError f) = ''[Errno 21] Is a directory: '' @ [CHR 0x27] @ f @ [CHR 0x27]"
| "str_error (PermissionError f) = ''[Errno 13] Permission denied: '' @ [CHR 0x27] @ f @ [CHR 0x27]"

datatype MessageRole = SYSTEM | USER | ASSISTANT

record Message =
  role :: MessageRole
  content :: string
  metadata :: "(string \<times> string) list"

text \<open>
  \<open>AgentResponse\<close>: the fields \<open>raw_response\<close> (the provider's own object) and
  \<open>timestamp\<close> are not read by any function modelled here and are left out.
\<close>

record AgentResponse =
  resp_content :: string
  resp_model :: string
  resp_provider :: string
  usage :: "(string \<times> int) list"
  finish_reason :: "string option"

datatype Provider = ANTHROPIC | OPENAI | GOOGLE

datatype Client = Client Provider

text \<open>
  \<open>BaseAgent\<close>. The concrete subclass (ClaudeAgent, GPTAgent, GeminiAgent) is recorded
  in \<open>agent_class\<close>; \<open>client\<close> is the attribute \<open>_client\<close>.
\<close>

record BaseAgent =
  agent_class :: Provider
  model :: string
  system_prompt :: string
  max_tokens :: int
  temperature :: real
  conversation_history :: "Message list"
  client :: "Client option"

definition new_agent :: "Provider \<Rightarrow> string \<Rightarrow> string \<Rightarrow> int \<Rightarrow> real \<Rightarrow> BaseAgent" where
  "new_agent cls m sp mt t =
     \<lparr>agent_class = cls, model = m, system_prompt = sp, max_tokens = mt, temperature = t,
      conversation_history = [], client = None\<rparr>"

text \<open>
  The abstract methods \<open>_initialize_client\<close> and \<open>_send_request\<close> talk to the outside
  world. The world is an explicit state \<open>'w\<close> that every call to them reads and advances,
  so a provider may answer the same request differently each time, and each call leaves
  a trace in the world. \<open>now\<close> is one reading of \<open>datetime.now()\<close>, in seconds.
\<close>

record 'w provider_api =
  initialize_client :: "BaseAgent \<Rightarrow> 'w \<Rightarrow> (error + Client) \<times> 'w"
  send_request :: "BaseAgent \<Rightarrow> Message list \<Rightarrow> 'w \<Rightarrow> (error + AgentResponse) \<times> 'w"
  now :: "'w \<Rightarrow> real \<times> 'w"

definition user_msg :: "string \<Rightarrow> Message" where
  "user_msg user_message = \<lparr>role = USER, content = user_message, metadata = []\<rparr>"

definition assistant_msg :: "AgentResponse \<Rightarrow> Message" where
  "assistant_msg response = \<lparr>role = ASSISTANT, content = resp_content response, metadata = []\<rparr>"

text \<open>
  The first lines of \<open>chat\<close>: \<open>if self._client is None: self._initialize_client()\<close>.
\<close>

definition ensure_client :: "'w provider_api \<Rightarrow> BaseAgent \<Rightarrow> 'w \<Rightarrow> (error + BaseAgent) \<times> 'w" where
  "ensure_client api a w =
     (case client a of
        None \<Rightarrow> (case initialize_client api a w of
                    (Inl e, w1) \<Rightarrow> (Inl e, w1)
                  | (Inr c, w1) \<Rightarrow> (Inr (a\<lparr>client := Some c\<rparr>), w1))
      | Some c \<Rightarrow> (Inr a, w))"

text \<open>The message list that \<open>chat\<close> builds for the request.\<close>

definition request_messages :: "BaseAgent \<Rightarrow> string \<Rightarrow> bool \<Rightarrow> Message list" where
  "request_messages a user_message include_history =
     (if include_history then conversation_history a else []) @ [user_msg user_message]"

text \<open>\<open>BaseAgent.chat\<close>: the result, the agent afterwards and the world afterwards.\<close>

definition chat ::
  "'w provider_api \<Rightarrow> string \<Rightarrow> bool \<Rightarrow> BaseAgent \<Rightarrow> 'w \<Rightarrow> (error + AgentResponse) \<times> BaseAgent \<times> 'w"
where
  "chat api user_message include_history a w =
     (case ensure_client api a w of
        (Inl e, w1) \<Rightarrow> (Inl e, a, w1)
      | (Inr a1, w1) \<Rightarrow>
          (case send_request api a1 (request_messages a1 user_message include_history) w1 of
             (Inl e, w2) \<Rightarrow> (Inl e, a1, w2)
           | (Inr response, w2) \<Rightarrow>
               (Inr response,
                a1\<lparr>conversation_history :=
                     (conversation_history a1 @ [user_msg user_message])
                       @ [assistant_msg response]\<rparr>,
                w2)))"

definition clear_history :: "BaseAgent \<Rightarrow> BaseAgent" where
  "clear_history a = a\<lparr>conversation_history := []\<rparr>"

definition set_system_prompt :: "string \<Rightarrow> BaseAgent \<Rightarrow> BaseAgent" where
  "set_system_prompt prompt a = a\<lparr>system_prompt := prompt\<rparr>"

definition get_context_length :: "BaseAgent \<Rightarrow> nat" where
  "get_context_length a = length (conversation_history a)"

subsection \<open>Sequences of calls on one agent\<close>

text \<open>
  A caller's use of one agent is a list of calls. \<open>run_calls\<close> performs them in order and
  returns what each call returned (\<open>None\<close> for \<open>clear_history\<close>, which returns nothing).
\<close>

datatype call = Chat string bool | ClearHistory

fun run_calls ::
  "'w provider_api \<Rightarrow> call list \<Rightarrow> BaseAgent \<Rightarrow> 'w
     \<Rightarrow> (error + AgentResponse) option list \<times> BaseAgent \<times> 'w"
where
  "run_calls api [] a w = ([], a, w)"
| "run_calls api (Chat m h # cs) a w =
     (case chat api m h a w of
        (r, a1, w1) \<Rightarrow>
          (case run_calls api cs a1 w1 of (rs, a2, w2) \<Rightarrow> (Some r # rs, a2, w2)))"
| "run_calls api (ClearHistory # cs) a w =
     (case run_calls api cs (clear_history a) w of (rs, a2, w2) \<Rightarrow> (None # rs, a2, w2))"

text \<open>
  The turns the history is expected to hold after a list of calls with their results: a
  successful chat adds its user text and the response content, a failed chat adds
  nothing, a clear drops everything before it. The accumulator is the turns so far.
\<close>

fun turns_since_clear ::
  "(call \<times> (error + AgentResponse) option) list \<Rightarrow> (string \<times> string) list
     \<Rightarrow> (string \<times> string) list"
where
  "turns_since_clear [] acc = acc"
| "turns_since_clear ((Chat m h, Some (Inr r)) # xs) acc =
     turns_since_clear xs (acc @ [(m, resp_content r)])"
| "turns_since_clear ((ClearHistory, r) # xs) acc = turns_since_clear xs []"
| "turns_since_clear (x # xs) acc = turns_since_clear xs acc"

fun turn_messages :: "(string \<times> string) list \<Rightarrow> Message list" where
  "turn_messages [] = []"
| "turn_messages ((u, r) # ts) =
     \<lparr>role = USER, content = u, metadata = []\<rparr>
       # \<lparr>role = ASSISTANT, content = r, metadata = []\<rparr> # turn_messages ts"

section \<open>Role registry and agent factory (roles/base.py, config/settings.py, agents/factory.py)\<close>

datatype Role = SENIOR_DEV | CODER | CODER_2 | QA | BA | REVIEWER

fun role_value :: "Role \<Rightarrow> string" where
  "role_value SENIOR_DEV = ''senior_dev''"
| "role_value CODER = ''coder''"
| "role_value CODER_2 = ''coder_2''"
| "role_value QA = ''qa''"
| "role_value BA = ''ba''"
| "role_value REVIEWER = ''reviewer''"

text \<open>\<open>str(role)\<close> and \<open>str(provider)\<close> of the two enums, as the error messages print them.\<close>

fun str_role :: "Role \<Rightarrow> string" where
  "str_role SENIOR_DEV = ''Role.SENIOR_DEV''"
| "str_role CODER = ''Role.CODER''"
| "str_role CODER_2 = ''Role.CODER_2''"
| "str_role QA = ''Role.QA''"
| "str_role BA = ''Role.BA''"
| "str_role REVIEWER = ''Role.REVIEWER''"

fun str_provider :: "Provider \<Rightarrow> string" where
  "str_provider ANTHROPIC = ''Provider.ANTHROPIC''"
| "str_provider OPENAI = ''Provider.OPENAI''"
| "str_provider GOOGLE = ''Provider.GOOGLE''"

record RoleConfig =
  rc_name :: string
  rc_description :: string
  rc_system_prompt :: string
  rc_max_tokens :: int
  rc_temperature :: real
  rc_capabilities :: "string list"

text \<open>
  The registry \<open>_ROLE_CONFIGS\<close> is a dictionary from role keys to configurations, filled by
  \<open>register_role\<close>; the functions below take it as an argument.
\<close>

type_synonym role_configs = "string \<rightharpoonup> RoleConfig"

definition register_role :: "string \<Rightarrow> RoleConfig \<Rightarrow> role_configs \<Rightarrow> role_configs" where
  "register_role role_key config configs = configs(role_key \<mapsto> config)"

definition get_role_config :: "role_configs \<Rightarrow> Role \<Rightarrow> error + RoleConfig" where
  "get_role_config configs r =
     (case configs (role_value r) of
        None \<Rightarrow> Inl (ValueError (''Unknown role: '' @ role_value r))
      | Some config \<Rightarrow> Inr config)"

text \<open>The fields of \<open>Settings\<close> that the factory reads.\<close>

record Settings =
  senior_dev_model :: string
  coder_model :: string
  coder_model_2 :: string
  qa_model :: string
  ba_model :: string
  reviewer_model :: string
  default_max_tokens :: int
  default_temperature :: real

definition default_settings :: Settings where
  "default_settings =
     \<lparr>senior_dev_model = ''claude-sonnet-4-20250514'',
      coder_model = ''claude-sonnet-4-5-20250514'',
      coder_model_2 = ''gemini-2.0-flash'',
      qa_model = ''gpt-4o'',
      ba_model = ''gemini-1.5-pro'',
      reviewer_model = ''claude-sonnet-4-20250514'',
      default_max_tokens = 8192,
      default_temperature = 7 / 10\<rparr>"

fun PROVIDER_AGENTS :: "Provider \<Rightarrow> Provider option" where
  "PROVIDER_AGENTS ANTHROPIC = Some ANTHROPIC"
| "PROVIDER_AGENTS OPENAI = Some OPENAI"
| "PROVIDER_AGENTS GOOGLE = Some GOOGLE"

fun ROLE_PROVIDERS :: "Role \<Rightarrow> Provider option" where
  "ROLE_PROVIDERS SENIOR_DEV = Some ANTHROPIC"
| "ROLE_PROVIDERS CODER = Some ANTHROPIC"
| "ROLE_PROVIDERS CODER_2 = Some GOOGLE"
| "ROLE_PROVIDERS QA = Some OPENAI"
| "ROLE_PROVIDERS BA = Some GOOGLE"
| "ROLE_PROVIDERS REVIEWER = Some ANTHROPIC"

text \<open>
  Python's \<open>x or d\<close> for an optional integer and an optional string: \<open>None\<close>, \<open>0\<close> and the
  empty string are falsy and give \<open>d\<close>.
\<close>

fun int_or :: "int option \<Rightarrow> int \<Rightarrow> int" where
  "int_or None d = d"
| "int_or (Some x) d = (if x = 0 then d else x)"

fun str_or :: "string option \<Rightarrow> string \<Rightarrow> string" where
  "str_or None d = d"
| "str_or (Some x) d = (if x = [] then d else x)"

text \<open>\<open>x if x is not None else d\<close>.\<close>

fun if_not_none :: "'a option \<Rightarrow> 'a \<Rightarrow> 'a" where
  "if_not_none None d = d"
| "if_not_none (Some x) d = x"

definition create_by_provider ::
  "Settings \<Rightarrow> Provider \<Rightarrow> string \<Rightarrow> string \<Rightarrow> int option \<Rightarrow> real option \<Rightarrow> error + BaseAgent"
where
  "create_by_provider settings provider m sp mt t =
     (case PROVIDER_AGENTS provider of
        None \<Rightarrow> Inl (ValueError (''Unsupported provider: '' @ str_provider provider))
      | Some agent_cls \<Rightarrow>
          Inr (new_agent agent_cls m sp
                 (int_or mt (default_max_tokens settings))
                 (if_not_none t (default_temperature settings))))"

fun model_map :: "Settings \<Rightarrow> Role \<Rightarrow> string option" where
  "model_map settings SENIOR_DEV = Some (senior_dev_model settings)"
| "model_map settings CODER = Some (coder_model settings)"
| "model_map settings CODER_2 = Some (coder_model_2 settings)"
| "model_map settings QA = Some (qa_model settings)"
| "model_map settings BA = Some (ba_model settings)"
| "model_map settings REVIEWER = Some (reviewer_model settings)"

definition create_by_role ::
  "Settings \<Rightarrow> role_configs \<Rightarrow> Role \<Rightarrow> string option \<Rightarrow> int option \<Rightarrow> real option
     \<Rightarrow> error + BaseAgent"
where
  "create_by_role settings configs r sp mt t =
     (case get_role_config configs r of
        Inl e \<Rightarrow> Inl e
      | Inr role_config \<Rightarrow>
          (case ROLE_PROVIDERS r of
             None \<Rightarrow> Inl (ValueError (''Unsupported role: '' @ str_role r))
           | Some provider \<Rightarrow>
               (case model_map settings r of
                  None \<Rightarrow> Inl (ValueError (''No model configured for role: '' @ str_role r))
                | Some m \<Rightarrow>
                    if m = [] then Inl (ValueError (''No model configured for role: '' @ str_role r))
                    else create_by_provider settings provider m
                           (str_or sp (rc_system_prompt role_config))
                           (Some (int_or mt (rc_max_tokens role_config)))
                           (Some (if_not_none t (rc_temperature role_config))))))"

section \<open>Orchestrator and workflow engine (orchestrator.py)\<close>

subsection \<open>Strings and dictionaries of Python\<close>

text \<open>\<open>str(n)\<close> for a non-negative integer.\<close>

fun str_nat :: "nat \<Rightarrow> string" where
  "str_nat n =
     (if n < 10 then [''0123456789'' ! n]
      else str_nat (n div 10) @ [''0123456789'' ! (n mod 10)])"

declare str_nat.simps [simp del]

text \<open>
  \<open>s.replace(old, new)\<close>: every occurrence of \<open>old\<close>, found from left to right without
  overlap, is replaced by \<open>new\<close>; the text put in is not searched again. For the empty
  \<open>old\<close> Python puts \<open>new\<close> before every character and at the end.
\<close>

function str_replace :: "string \<Rightarrow> string \<Rightarrow> string \<Rightarrow> string" where
  "str_replace old new s =
     (if old = [] then new @ concat (map (\<lambda>c. c # new) s)
      else if s = [] then []
      else if prefix old s then new @ str_replace old new (drop (length old) s)
      else hd s # str_replace old new (tl s))"
  by pat_completeness auto
termination
  by (relation "measure (\<lambda>(old, new, s). length s)") auto

declare str_replace.simps [simp del]

text \<open>
  A Python dictionary keeps its keys in insertion order: an association list with one
  entry per key. \<open>dict_set\<close> is \<open>d[k] = v\<close>: an existing key keeps its place.
\<close>

type_synonym ('k, 'v) dict = "('k \<times> 'v) list"

fun dict_set :: "'k \<Rightarrow> 'v \<Rightarrow> ('k, 'v) dict \<Rightarrow> ('k, 'v) dict" where
  "dict_set k v [] = [(k, v)]"
| "dict_set k v ((k', v') # d) = (if k' = k then (k', v) # d else (k', v') # dict_set k v d)"

fun dict_get :: "('k, 'v) dict \<Rightarrow> 'k \<Rightarrow> 'v option" where
  "dict_get [] k = None"
| "dict_get ((k', v') # d) k = (if k' = k then Some v' else dict_get d k)"

subsection \<open>Workflows\<close>

datatype WorkflowStatus = PENDING | RUNNING | COMPLETED | FAILED

text \<open>
  \<open>transform\<close> is an optional callable from a dictionary to the prompt; like any call it
  may raise.
\<close>

record WorkflowStep =
  step_role :: Role
  instruction :: string
  depends_on :: "string list"
  transform :: "((string, string) dict \<Rightarrow> error + string) option"

record WorkflowResult =
  status :: WorkflowStatus
  steps_completed :: nat
  outputs :: "(string, AgentResponse) dict"
  errors :: "string list"
  duration :: real

definition final_output :: "WorkflowResult \<Rightarrow> string option" where
  "final_output res =
     (if outputs res \<noteq> [] then Some (resp_content (snd (last (outputs res)))) else None)"

text \<open>
  The orchestrator's own state: the agents created so far and the registered workflows.
  Printing under \<open>verbose\<close> has no effect on either and is not modelled.
\<close>

record Orchestrator =
  verbose :: bool
  agents :: "Role \<rightharpoonup> BaseAgent"
  workflows :: "string \<rightharpoonup> WorkflowStep list"

definition register_workflow :: "string \<Rightarrow> WorkflowStep list \<Rightarrow> Orchestrator \<Rightarrow> Orchestrator" where
  "register_workflow name steps orch = orch\<lparr>workflows := (workflows orch)(name \<mapsto> steps)\<rparr>"

definition get_agent ::
  "Settings \<Rightarrow> role_configs \<Rightarrow> Role \<Rightarrow> Orchestrator \<Rightarrow> error + BaseAgent \<times> Orchestrator"
where
  "get_agent settings configs r orch =
     (case agents orch r of
        Some a \<Rightarrow> Inr (a, orch)
      | None \<Rightarrow>
          (case create_by_role settings configs r None None None of
             Inl e \<Rightarrow> Inl e
           | Inr a \<Rightarrow> Inr (a, orch\<lparr>agents := (agents orch)(r \<mapsto> a)\<rparr>)))"

text \<open>
  \<open>ask\<close>. The agent object lives in the dictionary, so what \<open>chat\<close> does to it (the
  client, the history) is stored back under the role.
\<close>

definition ask ::
  "'w provider_api \<Rightarrow> Settings \<Rightarrow> role_configs \<Rightarrow> Role \<Rightarrow> string \<Rightarrow> bool \<Rightarrow> Orchestrator \<Rightarrow> 'w
     \<Rightarrow> (error + AgentResponse) \<times> Orchestrator \<times> 'w"
where
  "ask api settings configs r prompt include_history orch w =
     (case get_agent settings configs r orch of
        Inl e \<Rightarrow> (Inl e, orch, w)
      | Inr (a, orch1) \<Rightarrow>
          (case chat api prompt include_history a w of
             (res, a1, w1) \<Rightarrow> (res, orch1\<lparr>agents := (agents orch1)(r \<mapsto> a1)\<rparr>, w1)))"

definition clear_context :: "Role option \<Rightarrow> Orchestrator \<Rightarrow> Orchestrator" where
  "clear_context r orch =
     (case r of
        Some r' \<Rightarrow>
          (case agents orch r' of
             Some a \<Rightarrow> orch\<lparr>agents := (agents orch)(r' \<mapsto> clear_history a)\<rparr>
           | None \<Rightarrow> orch)
      | None \<Rightarrow> orch\<lparr>agents := map_option clear_history \<circ> agents orch\<rparr>)"

text \<open>\<open>f"step_{i}_{step.role.value}"\<close>\<close>

definition step_name :: "nat \<Rightarrow> WorkflowStep \<Rightarrow> string" where
  "step_name i step = ''step_'' @ str_nat i @ ''_'' @ role_value (step_role step)"


text \<open>The loop over \<open>context.items()\<close>: one \<open>replace\<close> of \<open>{key}\<close> per entry, in order.\<close>

fun replace_context_variables :: "(string, string) dict \<Rightarrow> string \<Rightarrow> string" where
  "replace_context_variables [] prompt = prompt"
| "replace_context_variables ((key, val) # items) prompt =
     replace_context_variables items (str_replace (''{'' @ key @ ''}'') val prompt)"

text \<open>The block \<open>f"\n[{dep}]:\n{outputs[dep].content}\n"\<close> for one dependency.\<close>

definition dep_block :: "string \<Rightarrow> AgentResponse \<Rightarrow> string" where
  "dep_block dep r = ''\<newline>['' @ dep @ '']:\<newline>'' @ resp_content r @ ''\<newline>''"

text \<open>The loop over \<open>step.depends_on\<close>, which grows \<open>dep_context\<close>.\<close>

fun add_dependent_outputs ::
  "string list \<Rightarrow> (string, AgentResponse) dict \<Rightarrow> string \<Rightarrow> string"
where
  "add_dependent_outputs [] outs dep_context = dep_context"
| "add_dependent_outputs (dep # deps) outs dep_context =
     add_dependent_outputs deps outs
       (case dict_get outs dep of
          Some r \<Rightarrow> dep_context @ dep_block dep r
        | None \<Rightarrow> dep_context)"

text \<open>The prompt before the optional transform: template, context variables, dependencies.\<close>

definition assemble_prompt ::
  "(string, string) dict \<Rightarrow> (string, AgentResponse) dict \<Rightarrow> WorkflowStep \<Rightarrow> string"
where
  "assemble_prompt context outs step =
     (let prompt = instruction step;
          prompt = replace_context_variables context prompt
      in if depends_on step \<noteq> []
         then prompt @ add_dependent_outputs (depends_on step) outs
                         ''\<newline>\<newline>---\<newline>Previous outputs:\<newline>''
         else prompt)"

text \<open>\<open>{"prompt": prompt, **context}\<close>\<close>

definition transform_input :: "string \<Rightarrow> (string, string) dict \<Rightarrow> (string, string) dict" where
  "transform_input prompt context = foldl (\<lambda>d (k, v). dict_set k v d) [(''prompt'', prompt)] context"

definition build_prompt ::
  "(string, string) dict \<Rightarrow> (string, AgentResponse) dict \<Rightarrow> WorkflowStep \<Rightarrow> error + string"
where
  "build_prompt context outs step =
     (let prompt = assemble_prompt context outs step
      in case transform step of
           None \<Rightarrow> Inr prompt
         | Some f \<Rightarrow> f (transform_input prompt context))"

text \<open>The body of the \<open>try\<close> for one step, up to and including \<open>self.ask\<close>.\<close>

definition run_step ::
  "'w provider_api \<Rightarrow> Settings \<Rightarrow> role_configs \<Rightarrow> (string, string) dict \<Rightarrow> WorkflowStep
     \<Rightarrow> (string, AgentResponse) dict \<Rightarrow> Orchestrator \<Rightarrow> 'w
     \<Rightarrow> (error + AgentResponse) \<times> Orchestrator \<times> 'w"
where
  "run_step api settings configs context step outs orch w =
     (case build_prompt context outs step of
        Inl e \<Rightarrow> (Inl e, orch, w)
      | Inr prompt \<Rightarrow> ask api settings configs (step_role step) prompt False orch w)"

text \<open>
  The loop \<open>for i, step in enumerate(steps)\<close>. It stops at the first step that raises and
  returns the index and the error message of that step; \<open>None\<close> means that every step ran.
\<close>

fun run_steps ::
  "'w provider_api \<Rightarrow> Settings \<Rightarrow> role_configs \<Rightarrow> (string, string) dict \<Rightarrow> nat
     \<Rightarrow> WorkflowStep list \<Rightarrow> (string, AgentResponse) dict \<Rightarrow> Orchestrator \<Rightarrow> 'w
     \<Rightarrow> (nat \<times> string) option \<times> (string, AgentResponse) dict \<times> Orchestrator \<times> 'w"
where
  "run_steps api settings configs context i [] outs orch w = (None, outs, orch, w)"
| "run_steps api settings configs context i (step # steps) outs orch w =
     (case run_step api settings configs context step outs orch w of
        (Inl e, orch1, w1) \<Rightarrow>
          (Some (i, ''Step '' @ step_name i step @ '' failed: '' @ str_error e), outs, orch1, w1)
      | (Inr response, orch1, w1) \<Rightarrow>
          run_steps api settings configs context (Suc i) steps
            (dict_set (step_name i step) response outs) orch1 w1)"

definition run_workflow ::
  "'w provider_api \<Rightarrow> Settings \<Rightarrow> role_configs \<Rightarrow> string \<Rightarrow> (string, string) dict
     \<Rightarrow> Orchestrator \<Rightarrow> 'w \<Rightarrow> WorkflowResult \<times> Orchestrator \<times> 'w"
where
  "run_workflow api settings configs workflow_name context orch w =
     (case workflows orch workflow_name of
        None \<Rightarrow>
          (\<lparr>status = FAILED, steps_completed = 0, outputs = [],
            errors = [''Unknown workflow: '' @ workflow_name], duration = 0\<rparr>, orch, w)
      | Some steps \<Rightarrow>
          (case now api w of
             (start_time, w0) \<Rightarrow>
               (case run_steps api settings configs context 0 steps [] orch w0 of
                  (Some (i, msg), outs, orch1, w1) \<Rightarrow>
                    (case now api w1 of
                       (end_time, w2) \<Rightarrow>
                         (\<lparr>status = FAILED, steps_completed = i, outputs = outs,
                           errors = [msg], duration = end_time - start_time\<rparr>, orch1, w2))
                | (None, outs, orch1, w1) \<Rightarrow>
                    (case now api w1 of
                       (end_time, w2) \<Rightarrow>
                         (\<lparr>status = COMPLETED, steps_completed = length steps, outputs = outs,
                           errors = [], duration = end_time - start_time\<rparr>, orch1, w2)))))"

text \<open>The built-in workflows of \<open>_register_default_workflows\<close>.\<close>

definition mk_step :: "Role \<Rightarrow> string \<Rightarrow> string list \<Rightarrow> WorkflowStep" where
  "mk_step r ins deps = \<lparr>step_role = r, instruction = ins, depends_on = deps, transform = None\<rparr>"

definition feature_workflow :: "WorkflowStep list" where
  "feature_workflow =
     [mk_step BA (''Analyze this feature request and create user stories with acceptance criteria:''
                   @ ''\<newline>\<newline>{requirement}'') [],
      mk_step SENIOR_DEV (''Based on the requirements below, design the architecture and create ''
                   @ ''a technical plan for implementation.'') [''step_0_ba''],
      mk_step CODER ''Implement the feature based on the architecture and requirements provided.''
                   [''step_0_ba'', ''step_1_senior_dev''],
      mk_step QA ''Review the implementation for bugs, edge cases, and suggest test cases.''
                   [''step_2_coder'']]"

definition review_workflow :: "WorkflowStep list" where
  "review_workflow =
     [mk_step REVIEWER (''Review this code for issues, bugs, and improvements:''
                   @ ''\<newline>\<newline>{code}'') [],
      mk_step SENIOR_DEV (''Based on the review feedback, suggest how to refactor and ''
                   @ ''improve this code.'') [''step_0_reviewer'']]"

definition bugfix_workflow :: "WorkflowStep list" where
  "bugfix_workflow =
     [mk_step QA (''Analyze this bug report and identify the root cause:''
                   @ ''\<newline>\<newline>{bug_description}\<newline>\<newline>Code:\<newline>{code}'') [],
      mk_step SENIOR_DEV ''Based on the QA analysis, plan the fix approach.'' [''step_0_qa''],
      mk_step CODER ''Implement the bug fix based on the analysis and plan.''
                   [''step_0_qa'', ''step_1_senior_dev'']]"

definition architecture_workflow :: "WorkflowStep list" where
  "architecture_workflow =
     [mk_step BA (''List the business requirements and constraints for:''
                   @ ''\<newline>\<newline>{project_description}'') [],
      mk_step SENIOR_DEV ''Design a comprehensive architecture considering the business requirements.''
                   [''step_0_ba''],
      mk_step QA (''Review the architecture for potential issues, scalability concerns, ''
                   @ ''and security gaps.'') [''step_1_senior_dev'']]"

definition register_default_workflows :: "Orchestrator \<Rightarrow> Orchestrator" where
  "register_default_workflows orch =
     register_workflow ''architecture'' architecture_workflow
       (register_workflow ''bugfix'' bugfix_workflow
          (register_workflow ''review'' review_workflow
             (register_workflow ''feature'' feature_workflow orch)))"

definition new_orchestrator :: "bool \<Rightarrow> Orchestrator" where
  "new_orchestrator v =
     register_default_workflows \<lparr>verbose = v, agents = Map.empty, workflows = Map.empty\<rparr>"

section \<open>Sandboxed file store (mcp_filesystem.py)\<close>

subsection \<open>Paths\<close>

text \<open>
  Paths are POSIX paths, as \<open>pathlib\<close> handles them on a POSIX system: \<open>/\<close> is the only
  separator and the backslash is an ordinary character of a name. A parsed path is the
  list of its components; an absolute path is the list of components below \<open>/\<close>. The
  file system has no symbolic links, so \<open>Path.resolve\<close> only removes \<open>..\<close> components.
\<close>

type_synonym path = "string list"

text \<open>\<open>s.lstrip(c)\<close> for a single character \<open>c\<close>.\<close>

definition lstrip :: "char \<Rightarrow> string \<Rightarrow> string" where
  "lstrip c s = dropWhile (\<lambda>x. x = c) s"

text \<open>\<open>s.split(c)\<close>: the pieces between the occurrences of \<open>c\<close>, empty pieces included.\<close>

fun split_acc :: "char \<Rightarrow> string \<Rightarrow> string \<Rightarrow> string list" where
  "split_acc c cur [] = [cur]"
| "split_acc c cur (x # xs) =
     (if x = c then cur # split_acc c [] xs else split_acc c (cur @ [x]) xs)"

text \<open>The components of a path string: empty components and \<open>.\<close> are dropped by pathlib.\<close>

definition path_parts :: "string \<Rightarrow> path" where
  "path_parts s = filter (\<lambda>x. x \<noteq> [] \<and> x \<noteq> ''.'') (split_acc (CHR ''/'') [] s)"

definition is_absolute :: "string \<Rightarrow> bool" where
  "is_absolute s = (case s of [] \<Rightarrow> False | c # cs \<Rightarrow> c = CHR ''/'')"

text \<open>\<open>base / s\<close>: an absolute right operand replaces the left one.\<close>

definition path_join :: "path \<Rightarrow> string \<Rightarrow> path" where
  "path_join base s = (if is_absolute s then path_parts s else base @ path_parts s)"

text \<open>
  \<open>Path.resolve()\<close> without symbolic links: \<open>..\<close> drops the component before it, and
  at \<open>/\<close> it stays at \<open>/\<close>. The first argument is the path resolved so far.
\<close>

fun resolve :: "path \<Rightarrow> path \<Rightarrow> path" where
  "resolve acc [] = acc"
| "resolve acc (x # xs) =
     (if x = ''..'' then resolve (butlast acc) xs else resolve (acc @ [x]) xs)"

fun join :: "string \<Rightarrow> string list \<Rightarrow> string" where
  "join sep [] = []"
| "join sep [x] = x"
| "join sep (x # y # ys) = x @ sep @ join sep (y # ys)"

text \<open>\<open>str\<close> of an absolute path and of a path relative to the workspace root.\<close>

definition str_abs :: "path \<Rightarrow> string" where
  "str_abs p = ''/'' @ join ''/'' p"

definition str_rel :: "path \<Rightarrow> string" where
  "str_rel p = (if p = [] then ''.'' else join ''/'' p)"

text \<open>
  \<open>_resolve_path\<close>. \<open>Path.resolve()\<close> asks the operating system about the components
  of the path and raises \<open>ValueError: embedded null byte\<close> for a path with a NUL
  character; this is not caught in \<open>_resolve_path\<close>.
  \<open>full_path.relative_to(workspace_root)\<close> succeeds exactly when the root's components
  are a prefix of the path's components.
\<close>

definition escape_error :: "string \<Rightarrow> error" where
  "escape_error relative_path =
     ValueError (''Path '' @ [CHR 0x27] @ relative_path @ [CHR 0x27] @ '' escapes workspace sandbox'')"

definition resolve_path :: "path \<Rightarrow> string \<Rightarrow> error + path" where
  "resolve_path workspace_root relative_path =
     (let clean_path = lstrip (CHR 0x5C) (lstrip (CHR ''/'') relative_path)
      in if CHR 0x00 \<in> set clean_path then Inl (ValueError ''embedded null byte'')
         else (let full_path = resolve [] (path_join workspace_root clean_path)
               in if prefix workspace_root full_path then Inr full_path
                  else Inl (escape_error relative_path)))"


subsection \<open>The file system\<close>

text \<open>
  A file has a size in bytes and a content: text (as a reader in text mode receives it,
  line ends translated to the newline character), or bytes that do not decode as UTF-8,
  of which \<open>Undecodable\<close> keeps the text a reader receives before the decoding error. A
  directory has a flag that says whether it may be listed, and its entries in the order
  in which the operating system lists them. The whole file system is the node at \<open>/\<close>;
  the workspace root is a path into it.
\<close>

datatype contents = Text string | Undecodable string

datatype node = File nat contents | Dir bool "(string \<times> node) list"

fun lookup :: "node \<Rightarrow> path \<Rightarrow> node option"
and lookup_in :: "(string \<times> node) list \<Rightarrow> string \<Rightarrow> path \<Rightarrow> node option"
where
  "lookup n [] = Some n"
| "lookup (File sz c) (x # xs) = None"
| "lookup (Dir r es) (x # xs) = lookup_in es x xs"
| "lookup_in [] x xs = None"
| "lookup_in ((name, child) # es) x xs =
     (if name = x then lookup child xs else lookup_in es x xs)"

definition is_dir :: "node option \<Rightarrow> bool" where
  "is_dir n = (case n of Some (Dir r es) \<Rightarrow> True | _ \<Rightarrow> False)"

definition is_file :: "node option \<Rightarrow> bool" where
  "is_file n = (case n of Some (File sz c) \<Rightarrow> True | _ \<Rightarrow> False)"

record FileInfo =
  fi_path :: string
  fi_name :: string
  fi_is_dir :: bool
  fi_size :: nat

record OperationResult =
  success :: bool
  message :: string
  data :: "string option"

subsection \<open>Reading and writing a file\<close>

definition read_file :: "path \<Rightarrow> node \<Rightarrow> string \<Rightarrow> OperationResult" where
  "read_file workspace_root fs file_path =
     (case resolve_path workspace_root file_path of
        Inl e \<Rightarrow> \<lparr>success = False, message = str_error e, data = None\<rparr>
      | Inr full_path \<Rightarrow>
          (case lookup fs full_path of
             None \<Rightarrow> \<lparr>success = False, message = ''File not found: '' @ file_path, data = None\<rparr>
           | Some (Dir r es) \<Rightarrow>
               \<lparr>success = False, message = ''Not a file: '' @ file_path, data = None\<rparr>
           | Some (File sz (Undecodable t)) \<Rightarrow>
               \<lparr>success = False, message = ''Cannot read binary file: '' @ file_path, data = None\<rparr>
           | Some (File sz (Text t)) \<Rightarrow>
               \<lparr>success = True,
                message = ''Read '' @ str_nat (length t) @ '' bytes from '' @ file_path,
                data = Some t\<rparr>))"

text \<open>
  \<open>full_path.parent.mkdir(parents=True, exist_ok=True)\<close> followed by
  \<open>full_path.write_text(content)\<close>, as one walk down the tree: missing directories and
  the file are created, an existing file is overwritten. It fails, changing nothing, when
  a component above the file is a file, or when the path is a directory.
\<close>

datatype oserror = ENOTDIR | EEXIST | EISDIR

text \<open>
  The number of bytes of the UTF-8 encoding of a text: one for a code point below 128,
  two for the others below 256.
\<close>

definition utf8_size :: "string \<Rightarrow> nat" where
  "utf8_size s = sum_list (map (\<lambda>c. if (of_char c :: nat) < 128 then 1 else 2) s)"

text \<open>
  What a reader in text mode makes of the written characters: a carriage return
  followed by a newline, and a single carriage return, are read as one newline.
\<close>

fun universal_newlines :: "string \<Rightarrow> string" where
  "universal_newlines [] = []"
| "universal_newlines [c] = [if c = CHR 0x0D then CHR 0x0A else c]"
| "universal_newlines (c # d # ds) =
     (if c = CHR 0x0D
      then (if d = CHR 0x0A then CHR 0x0A # universal_newlines ds
            else CHR 0x0A # universal_newlines (d # ds))
      else c # universal_newlines (d # ds))"

definition written_file :: "string \<Rightarrow> node" where
  "written_file new_content = File (utf8_size new_content) (Text (universal_newlines new_content))"

fun new_file :: "path \<Rightarrow> string \<Rightarrow> node" where
  "new_file [] new_content = written_file new_content"
| "new_file (x # xs) new_content = Dir True [(x, new_file xs new_content)]"

fun write_node :: "node \<Rightarrow> path \<Rightarrow> string \<Rightarrow> oserror + node"
and write_in :: "(string \<times> node) list \<Rightarrow> string \<Rightarrow> path \<Rightarrow> string \<Rightarrow> oserror + (string \<times> node) list"
where
  "write_node (File sz c) [] new_content = Inr (written_file new_content)"
| "write_node (Dir r es) [] new_content = Inl EISDIR"
| "write_node (File sz c) (x # xs) new_content = Inl (if xs = [] then EEXIST else ENOTDIR)"
| "write_node (Dir r es) (x # xs) new_content =
     (case write_in es x xs new_content of Inl e \<Rightarrow> Inl e | Inr es' \<Rightarrow> Inr (Dir r es'))"
| "write_in [] x xs new_content = Inr [(x, new_file xs new_content)]"
| "write_in ((name, child) # es) x xs new_content =
     (if name = x
      then (case write_node child xs new_content of
              Inl e \<Rightarrow> Inl e | Inr child' \<Rightarrow> Inr ((name, child') # es))
      else (case write_in es x xs new_content of
              Inl e \<Rightarrow> Inl e | Inr es' \<Rightarrow> Inr ((name, child) # es')))"

definition write_error :: "oserror \<Rightarrow> path \<Rightarrow> error" where
  "write_error e full_path =
     (case e of
        ENOTDIR \<Rightarrow> NotADirectoryError (str_abs (butlast full_path))
      | EEXIST \<Rightarrow> FileExistsError (str_abs (butlast full_path))
      | EISDIR \<Rightarrow> IsADirectoryError (str_abs full_path))"

definition write_file :: "path \<Rightarrow> string \<Rightarrow> string \<Rightarrow> node \<Rightarrow> OperationResult \<times> node" where
  "write_file workspace_root file_path new_content fs =
     (case resolve_path workspace_root file_path of
        Inl e \<Rightarrow> (\<lparr>success = False, message = str_error e, data = None\<rparr>, fs)
      | Inr full_path \<Rightarrow>
          (case write_node fs full_path new_content of
             Inl e \<Rightarrow>
               (\<lparr>success = False, message = str_error (write_error e full_path), data = None\<rparr>, fs)
           | Inr fs' \<Rightarrow>
               (\<lparr>success = True,
                 message = ''Wrote '' @ str_nat (length new_content) @ '' bytes to '' @ file_path,
                 data = Some (str_abs full_path)\<rparr>, fs')))"

text \<open>
  What a caller can observe at a path without listing a directory: nothing, a file with
  its size and content, or a directory with its flag.
\<close>

datatype stat = Missing | IsFile nat contents | IsDir bool

definition stat_at :: "node \<Rightarrow> path \<Rightarrow> stat" where
  "stat_at fs q =
     (case lookup fs q of
        None \<Rightarrow> Missing
      | Some (File sz c) \<Rightarrow> IsFile sz c
      | Some (Dir r es) \<Rightarrow> IsDir r)"

subsection \<open>Listing and searching\<close>

text \<open>
  The three operations that return a list wrap their whole body in
  \<open>try: ... except Exception: return []\<close>. Each is modelled as its body, which returns the
  exception as a value, and the wrapper around it.
\<close>

definition file_info :: "path \<Rightarrow> path \<Rightarrow> string \<times> node \<Rightarrow> FileInfo" where
  "file_info workspace_root full_path item =
     \<lparr>fi_path = str_rel (drop (length workspace_root) (full_path @ [fst item])),
      fi_name = fst item,
      fi_is_dir = is_dir (Some (snd item)),
      fi_size = (case snd item of File sz c \<Rightarrow> sz | Dir r es \<Rightarrow> 0)\<rparr>"

definition list_directory_body :: "path \<Rightarrow> node \<Rightarrow> string \<Rightarrow> error + FileInfo list" where
  "list_directory_body workspace_root fs dir_path =
     (case resolve_path workspace_root dir_path of
        Inl e \<Rightarrow> Inl e
      | Inr full_path \<Rightarrow>
          (case lookup fs full_path of
             None \<Rightarrow> Inr []
           | Some (File sz c) \<Rightarrow> Inr []
           | Some (Dir r es) \<Rightarrow>
               if r then Inr (map (file_info workspace_root full_path) (sort_key fst es))
               else Inl (PermissionError (str_abs full_path))))"

definition list_directory :: "path \<Rightarrow> node \<Rightarrow> string \<Rightarrow> FileInfo list" where
  "list_directory workspace_root fs dir_path =
     (case list_directory_body workspace_root fs dir_path of Inl e \<Rightarrow> [] | Inr items \<Rightarrow> items)"

text \<open>\<open>d.startswith(".")\<close>\<close>

definition hidden :: "string \<Rightarrow> bool" where
  "hidden d = (case d of [] \<Rightarrow> False | c # cs \<Rightarrow> c = CHR ''.'')"

text \<open>
  \<open>os.walk(top)\<close> together with the pruning \<open>dirs[:] = [d for d in dirs if not
  d.startswith(".")]\<close> that both callers do before the walk descends: for every directory
  visited, top-down, its path and the names of its entries that are not directories. A
  top that is missing, is a file or cannot be listed yields nothing, and the walk raises
  nothing.
\<close>

fun file_names :: "(string \<times> node) list \<Rightarrow> string list" where
  "file_names [] = []"
| "file_names ((name, File sz c) # es) = name # file_names es"
| "file_names ((name, Dir r sub) # es) = file_names es"

fun os_walk :: "path \<Rightarrow> node \<Rightarrow> (path \<times> string list) list"
and walk_dirs :: "path \<Rightarrow> (string \<times> node) list \<Rightarrow> (path \<times> string list) list"
where
  "os_walk dirpath (File sz c) = []"
| "os_walk dirpath (Dir r es) = (if r then (dirpath, file_names es) # walk_dirs dirpath es else [])"
| "walk_dirs dirpath [] = []"
| "walk_dirs dirpath ((name, File sz c) # es) = walk_dirs dirpath es"
| "walk_dirs dirpath ((name, Dir r sub) # es) =
     (if hidden name then [] else os_walk (dirpath @ [name]) (Dir r sub)) @ walk_dirs dirpath es"

definition walk_from :: "node \<Rightarrow> path \<Rightarrow> (path \<times> string list) list" where
  "walk_from fs full_path =
     (case lookup fs full_path of None \<Rightarrow> [] | Some n \<Rightarrow> os_walk full_path n)"

text \<open>
  \<open>fnmatch.fnmatch(filename, pattern)\<close> is Python's library function and an argument of
  the two searches. \<open>fnmatch_simple\<close> is that function on the patterns without \<open>[\<close>:
  \<open>*\<close> matches any text, \<open>?\<close> any one character, every other character itself.
\<close>

fun fnmatch_simple :: "string \<Rightarrow> string \<Rightarrow> bool" where
  "fnmatch_simple [] [] = True"
| "fnmatch_simple (c # cs) [] = False"
| "fnmatch_simple [] (p # ps) = (p = CHR ''*'' \<and> fnmatch_simple [] ps)"
| "fnmatch_simple (c # cs) (p # ps) =
     (if p = CHR ''*'' then fnmatch_simple (c # cs) ps \<or> fnmatch_simple cs (p # ps)
      else (p = CHR ''?'' \<or> p = c) \<and> fnmatch_simple cs ps)"

text \<open>The two loops of \<open>search_files\<close>: over the walk, and over the files of a directory.\<close>

fun search_in_files ::
  "(string \<Rightarrow> string \<Rightarrow> bool) \<Rightarrow> string \<Rightarrow> path \<Rightarrow> path \<Rightarrow> string list \<Rightarrow> string list
     \<Rightarrow> string list"
where
  "search_in_files fnmatch pattern workspace_root dirpath [] matches = matches"
| "search_in_files fnmatch pattern workspace_root dirpath (filename # files) matches =
     search_in_files fnmatch pattern workspace_root dirpath files
       (if fnmatch filename pattern
        then matches @ [str_rel (drop (length workspace_root) (dirpath @ [filename]))]
        else matches)"

fun search_in_walk ::
  "(string \<Rightarrow> string \<Rightarrow> bool) \<Rightarrow> string \<Rightarrow> path \<Rightarrow> (path \<times> string list) list \<Rightarrow> string list
     \<Rightarrow> string list"
where
  "search_in_walk fnmatch pattern workspace_root [] matches = matches"
| "search_in_walk fnmatch pattern workspace_root ((dirpath, files) # rest) matches =
     search_in_walk fnmatch pattern workspace_root rest
       (search_in_files fnmatch pattern workspace_root dirpath files matches)"

definition search_files_body ::
  "(string \<Rightarrow> string \<Rightarrow> bool) \<Rightarrow> path \<Rightarrow> node \<Rightarrow> string \<Rightarrow> string \<Rightarrow> error + string list"
where
  "search_files_body fnmatch workspace_root fs pattern dir_path =
     (case resolve_path workspace_root dir_path of
        Inl e \<Rightarrow> Inl e
      | Inr full_path \<Rightarrow>
          Inr (sort (search_in_walk fnmatch pattern workspace_root (walk_from fs full_path) [])))"

definition search_files ::
  "(string \<Rightarrow> string \<Rightarrow> bool) \<Rightarrow> path \<Rightarrow> node \<Rightarrow> string \<Rightarrow> string \<Rightarrow> string list"
where
  "search_files fnmatch workspace_root fs pattern dir_path =
     (case search_files_body fnmatch workspace_root fs pattern dir_path of
        Inl e \<Rightarrow> [] | Inr matches \<Rightarrow> matches)"

subsection \<open>grep\<close>

text \<open>
  \<open>str.lower()\<close> and \<open>str.strip()\<close> are Python's library functions on Unicode text and,
  like \<open>fnmatch\<close>, arguments of \<open>grep\<close>.
\<close>

text \<open>\<open>needle in haystack\<close> for two strings.\<close>

fun contains :: "string \<Rightarrow> string \<Rightarrow> bool" where
  "contains needle [] = (needle = [])"
| "contains needle (c # cs) = (prefix needle (c # cs) \<or> contains needle cs)"

text \<open>
  Iterating over an open text file gives its lines, each with its newline. For a file
  that does not decode, the lines of the text received are given before the
  \<open>UnicodeDecodeError\<close>, which \<open>grep\<close> catches to go on with the next file.
\<close>

fun lines_acc :: "string \<Rightarrow> string \<Rightarrow> string list" where
  "lines_acc cur [] = (if cur = [] then [] else [cur])"
| "lines_acc cur (c # cs) =
     (if c = CHR 0x0A then (cur @ [c]) # lines_acc [] cs else lines_acc (cur @ [c]) cs)"

definition file_lines :: "contents \<Rightarrow> string list" where
  "file_lines c = lines_acc [] (case c of Text t \<Rightarrow> t | Undecodable t \<Rightarrow> t)"

text \<open>The loop \<open>for line_num, line in enumerate(f, 1)\<close>.\<close>

fun grep_lines ::
  "(string \<Rightarrow> string) \<Rightarrow> (string \<Rightarrow> string) \<Rightarrow> string \<Rightarrow> string \<Rightarrow> nat \<Rightarrow> string list
     \<Rightarrow> string list \<Rightarrow> string list"
where
  "grep_lines lower strip search_term rel_path line_num [] matches = matches"
| "grep_lines lower strip search_term rel_path line_num (line # rest) matches =
     grep_lines lower strip search_term rel_path (Suc line_num) rest
       (if contains (lower search_term) (lower line)
        then matches @ [rel_path @ '':'' @ str_nat line_num @ '':'' @ strip line]
        else matches)"

text \<open>The loop over the files of one directory, and the loop over the walk.\<close>

fun grep_in_files ::
  "(string \<Rightarrow> string \<Rightarrow> bool) \<Rightarrow> (string \<Rightarrow> string) \<Rightarrow> (string \<Rightarrow> string) \<Rightarrow> string \<Rightarrow> string
     \<Rightarrow> path \<Rightarrow> node \<Rightarrow> path \<Rightarrow> string list \<Rightarrow> string list \<Rightarrow> string list"
where
  "grep_in_files fnmatch lower strip search_term file_pattern workspace_root fs dirpath []
     matches = matches"
| "grep_in_files fnmatch lower strip search_term file_pattern workspace_root fs dirpath
     (filename # files) matches =
     grep_in_files fnmatch lower strip search_term file_pattern workspace_root fs dirpath files
       (if \<not> fnmatch filename file_pattern then matches
        else (case lookup fs (dirpath @ [filename]) of
                Some (File sz c) \<Rightarrow>
                  grep_lines lower strip search_term
                    (str_rel (drop (length workspace_root) (dirpath @ [filename]))) 1
                    (file_lines c) matches
              | _ \<Rightarrow> matches))"

fun grep_in_walk ::
  "(string \<Rightarrow> string \<Rightarrow> bool) \<Rightarrow> (string \<Rightarrow> string) \<Rightarrow> (string \<Rightarrow> string) \<Rightarrow> string \<Rightarrow> string
     \<Rightarrow> path \<Rightarrow> node \<Rightarrow> (path \<times> string list) list \<Rightarrow> string list \<Rightarrow> string list"
where
  "grep_in_walk fnmatch lower strip search_term file_pattern workspace_root fs [] matches
     = matches"
| "grep_in_walk fnmatch lower strip search_term file_pattern workspace_root fs
     ((dirpath, files) # rest) matches =
     grep_in_walk fnmatch lower strip search_term file_pattern workspace_root fs rest
       (grep_in_files fnmatch lower strip search_term file_pattern workspace_root fs dirpath
          files matches)"

definition grep_body ::
  "(string \<Rightarrow> string \<Rightarrow> bool) \<Rightarrow> (string \<Rightarrow> string) \<Rightarrow> (string \<Rightarrow> string) \<Rightarrow> path \<Rightarrow> node
     \<Rightarrow> string \<Rightarrow> string \<Rightarrow> string \<Rightarrow> error + string list"
where
  "grep_body fnmatch lower strip workspace_root fs search_term dir_path file_pattern =
     (case resolve_path workspace_root dir_path of
        Inl e \<Rightarrow> Inl e
      | Inr full_path \<Rightarrow>
          Inr (grep_in_walk fnmatch lower strip search_term file_pattern workspace_root fs
                 (walk_from fs full_path) []))"

definition grep ::
  "(string \<Rightarrow> string \<Rightarrow> bool) \<Rightarrow> (string \<Rightarrow> string) \<Rightarrow> (string \<Rightarrow> string) \<Rightarrow> path \<Rightarrow> node
     \<Rightarrow> string \<Rightarrow> string \<Rightarrow> string \<Rightarrow> string list"
where
  "grep fnmatch lower strip workspace_root fs search_term dir_path file_pattern =
     (case grep_body fnmatch lower strip workspace_root fs search_term dir_path file_pattern of
        Inl e \<Rightarrow> [] | Inr matches \<Rightarrow> matches)"

section \<open>Concrete inputs\<close>

text \<open>
  A provider for the examples below. Its world is the number of requests sent so far.
  The second request fails with a timeout; every other request is answered with the
  text of the last message, in capitals left as they are, after \<open>re: \<close>.
\<close>

definition scripted_send ::
  "BaseAgent \<Rightarrow> Message list \<Rightarrow> nat \<Rightarrow> (error + AgentResponse) \<times> nat"
where
  "scripted_send a messages w =
     (if w = 1 then (Inl (ProviderError ''request timed out''), Suc w)
      else (Inr \<lparr>resp_content = ''re: '' @ concat (map content (drop (length messages - 1) messages)),
                 resp_model = model a, resp_provider = ''scripted'', usage = [],
                 finish_reason = Some ''stop''\<rparr>, Suc w))"

definition scripted_api :: "nat provider_api" where
  "scripted_api =
     \<lparr>initialize_client = (\<lambda>a w. (Inr (Client (agent_class a)), w)),
      send_request = scripted_send,
      now = (\<lambda>w. (real w, w))\<rparr>"

text \<open>A registry as \<open>register_role\<close> builds it, with short prompts.\<close>

definition example_configs :: role_configs where
  "example_configs =
     register_role ''ba''
       \<lparr>rc_name = ''Business Analyst'',
        rc_description = ''Requirements specialist for specifications and business analysis'',
        rc_system_prompt = ''You are an Expert Business Analyst.'',
        rc_max_tokens = 4096, rc_temperature = 7 / 10, rc_capabilities = []\<rparr>
     (register_role ''coder''
       \<lparr>rc_name = ''Coder'',
        rc_description = ''Implementation specialist for rapid, high-quality coding'',
        rc_system_prompt = ''You are an Expert Coder.'',
        rc_max_tokens = 4096, rc_temperature = 6 / 10, rc_capabilities = []\<rparr>
     (register_role ''senior_dev''
       \<lparr>rc_name = ''Senior Developer'',
        rc_description = ''Technical leader for architecture, complex coding, and code review'',
        rc_system_prompt = ''You are a Senior Software Developer.'',
        rc_max_tokens = 8192, rc_temperature = 5 / 10, rc_capabilities = []\<rparr>
     (register_role ''qa''
       \<lparr>rc_name = ''QA Engineer'',
        rc_description = ''Quality guardian for testing, bug finding, and validation'',
        rc_system_prompt = ''You are an Expert QA Engineer.'',
        rc_max_tokens = 4096, rc_temperature = 4 / 10, rc_capabilities = []\<rparr>
      Map.empty)))"

text \<open>
  A workflow of three steps, registered by the caller under the name \<open>triage\<close>, and the
  two agents that a run of it with the provider above and the context
  \<open>{"bug": "crash"}\<close> leaves behind when the second request fails.
\<close>

definition triage_workflow :: "WorkflowStep list" where
  "triage_workflow =
     [mk_step QA ''Analyze {bug}'' [],
      mk_step SENIOR_DEV ''Plan the fix'' [''step_0_qa''],
      mk_step CODER ''Fix it'' [''step_1_senior_dev'', ''step_0_qa'']]"

definition triage_orchestrator :: Orchestrator where
  "triage_orchestrator =
     register_workflow ''triage'' triage_workflow
       \<lparr>verbose = False, agents = Map.empty, workflows = Map.empty\<rparr>"

definition triage_qa_response :: AgentResponse where
  "triage_qa_response =
     \<lparr>resp_content = ''re: Analyze crash'', resp_model = ''gpt-4o'',
      resp_provider = ''scripted'', usage = [], finish_reason = Some ''stop''\<rparr>"





text \<open>
  \<open>str.lower()\<close> and \<open>str.strip()\<close> on ASCII text: \<open>A\<close>..\<open>Z\<close> become \<open>a\<close>..\<open>z\<close>, and
  the ASCII white space is removed at both ends. They are used for the examples only.
\<close>

definition lower_ascii_char :: "char \<Rightarrow> char" where
  "lower_ascii_char c =
     (case map_of (zip ''ABCDEFGHIJKLMNOPQRSTUVWXYZ'' ''abcdefghijklmnopqrstuvwxyz'') c of
        Some l \<Rightarrow> l | None \<Rightarrow> c)"

definition lower_ascii :: "string \<Rightarrow> string" where
  "lower_ascii s = map lower_ascii_char s"

definition is_space_ascii :: "char \<Rightarrow> bool" where
  "is_space_ascii c = (c \<in> set [CHR 0x09, CHR 0x0A, CHR 0x0B, CHR 0x0C, CHR 0x0D,
                                  CHR 0x1C, CHR 0x1D, CHR 0x1E, CHR 0x1F, CHR 0x20])"

definition strip_ascii :: "string \<Rightarrow> string" where
  "strip_ascii s = rev (dropWhile is_space_ascii (rev (dropWhile is_space_ascii s)))"

text \<open>
  A file system with the workspace at \<open>/ws\<close>: a project \<open>demo\<close> with two files and a
  hidden directory, and a file \<open>/etc/passwd\<close> outside the workspace.
\<close>

definition example_fs :: node where
  "example_fs =
     Dir True
       [(''etc'', Dir True [(''passwd'', File 5 (Text ''root\<newline>''))]),
        (''ws'', Dir True
           [(''demo'', Dir True
               [(''main.py'', File 27 (Text ''# TODO fix\<newline>print(1)\<newline>Todo: x''))
               ,(''README.md'', File 7 (Text ''# demo\<newline>''))
               ,(''.git'', Dir True [(''config'', File 5 (Text ''todo\<newline>''))])])])]"

section \<open>Properties of the agent\<close>

lemma ensure_client_history:
  "ensure_client api a w = (Inr a1, w1) \<Longrightarrow> conversation_history a1 = conversation_history a"
  by (auto simp: ensure_client_def split: option.splits prod.splits sum.splits)

lemma chat_history:
  "chat api m h a w = (r, a', w') \<Longrightarrow>
     conversation_history a' =
       (case r of Inl e \<Rightarrow> conversation_history a
        | Inr resp \<Rightarrow> conversation_history a @ turn_messages [(m, resp_content resp)])"
  by (auto simp: chat_def user_msg_def assistant_msg_def dest: ensure_client_history
      split: prod.splits sum.splits)

lemma turn_messages_append: "turn_messages (xs @ ys) = turn_messages xs @ turn_messages ys"
  by (induction xs rule: turn_messages.induct) auto

lemma run_calls_history:
  "run_calls api cs a w = (rs, a', w') \<Longrightarrow> conversation_history a = turn_messages acc \<Longrightarrow>
     conversation_history a' = turn_messages (turns_since_clear (zip cs rs) acc)"
proof (induction cs arbitrary: a w rs acc a' w')
  case Nil
  then show ?case by simp
next
  case (Cons c cs)
  show ?case
  proof (cases c)
    case (Chat m h)
    obtain r a1 w1 where c1: "chat api m h a w = (r, a1, w1)"
      by (cases "chat api m h a w") auto
    obtain rs1 a2 w2 where c2: "run_calls api cs a1 w1 = (rs1, a2, w2)"
      by (cases "run_calls api cs a1 w1") auto
    from Cons.prems(1) Chat c1 c2 have eq: "rs = Some r # rs1" "a' = a2" by auto
    show ?thesis
    proof (cases r)
      case (Inl e)
      with chat_history[OF c1] Cons.prems(2)
      have "conversation_history a1 = turn_messages acc" by simp
      from Cons.IH[OF c2 this] show ?thesis using eq Chat Inl by simp
    next
      case (Inr resp)
      with chat_history[OF c1] Cons.prems(2)
      have "conversation_history a1 = turn_messages (acc @ [(m, resp_content resp)])"
        by (simp add: turn_messages_append)
      from Cons.IH[OF c2 this] show ?thesis using eq Chat Inr by simp
    qed
  next
    case ClearHistory
    obtain rs1 a2 w2 where c2: "run_calls api cs (clear_history a) w = (rs1, a2, w2)"
      by (cases "run_calls api cs (clear_history a) w") auto
    from Cons.prems(1) ClearHistory c2 have eq: "rs = None # rs1" "a' = a2" by auto
    have "conversation_history (clear_history a) = turn_messages []"
      by (simp add: clear_history_def)
    from Cons.IH[OF c2 this] show ?thesis using eq ClearHistory by simp
  qed
qed

lemma map_role_turn_messages:
  "map role (turn_messages ts) = concat (replicate (length ts) [USER, ASSISTANT])"
  by (induction ts rule: turn_messages.induct) auto

lemma length_turn_messages: "length (turn_messages ts) = 2 * length ts"
  by (induction ts rule: turn_messages.induct) auto

lemma no_system_turn_messages: "SYSTEM \<notin> role ` set (turn_messages ts)"
  by (induction ts rule: turn_messages.induct) auto

text \<open>
  C3. Take a new agent and any list of calls (chats, with either value of
  \<open>include_history\<close>, and clears), with a provider that may fail any of them. Afterwards
  the history is exactly the turns of the successful chats since the last clear: for each
  of them, in order, the user message and then an assistant message with the content of
  the response. So its length is twice the number of those chats, its roles are user,
  assistant, user, assistant, ..., and no message has the role \<open>SYSTEM\<close>. Whether a chat
  included the history in its request plays no part.
\<close>

theorem history_after_calls:
  assumes "run_calls api cs (new_agent cls m sp mt t) w = (rs, a', w')"
  shows "conversation_history a' = turn_messages (turns_since_clear (zip cs rs) [])
       \<and> length (conversation_history a') = 2 * length (turns_since_clear (zip cs rs) [])
       \<and> map role (conversation_history a')
            = concat (replicate (length (turns_since_clear (zip cs rs) [])) [USER, ASSISTANT])
       \<and> SYSTEM \<notin> role ` set (conversation_history a')"
proof -
  have "conversation_history (new_agent cls m sp mt t) = turn_messages []"
    by (simp add: new_agent_def)
  from run_calls_history[OF assms this]
  show ?thesis
    by (simp add: map_role_turn_messages length_turn_messages no_system_turn_messages)
qed

lemma scripted_calls:
  "run_calls scripted_api
     [Chat ''a'' True, Chat ''b'' False, ClearHistory, Chat ''c'' False, Chat ''d'' True]
     (new_agent ANTHROPIC ''m'' ''sp'' 10 (1 / 2)) 0
   = ([Some (Inr \<lparr>resp_content = ''re: a'', resp_model = ''m'', resp_provider = ''scripted'',
                   usage = [], finish_reason = Some ''stop''\<rparr>),
       Some (Inl (ProviderError ''request timed out'')),
       None,
       Some (Inr \<lparr>resp_content = ''re: c'', resp_model = ''m'', resp_provider = ''scripted'',
                   usage = [], finish_reason = Some ''stop''\<rparr>),
       Some (Inr \<lparr>resp_content = ''re: d'', resp_model = ''m'', resp_provider = ''scripted'',
                   usage = [], finish_reason = Some ''stop''\<rparr>)],
      \<lparr>agent_class = ANTHROPIC, model = ''m'', system_prompt = ''sp'', max_tokens = 10,
        temperature = 1 / 2,
        conversation_history =
          [\<lparr>role = USER, content = ''c'', metadata = []\<rparr>,
           \<lparr>role = ASSISTANT, content = ''re: c'', metadata = []\<rparr>,
           \<lparr>role = USER, content = ''d'', metadata = []\<rparr>,
           \<lparr>role = ASSISTANT, content = ''re: d'', metadata = []\<rparr>],
        client = Some (Client ANTHROPIC)\<rparr>,
      4)"
  by (simp add: chat_def ensure_client_def request_messages_def scripted_api_def
      scripted_send_def new_agent_def clear_history_def user_msg_def assistant_msg_def)

theorem history_after_calls_witness:
  "length (conversation_history (fst (snd (run_calls scripted_api
      [Chat ''a'' True, Chat ''b'' False, ClearHistory, Chat ''c'' False, Chat ''d'' True]
      (new_agent ANTHROPIC ''m'' ''sp'' 10 (1 / 2)) 0)))) = 2 * 2
   \<and> map role (conversation_history (fst (snd (run_calls scripted_api
      [Chat ''a'' True, Chat ''b'' False, ClearHistory, Chat ''c'' False, Chat ''d'' True]
      (new_agent ANTHROPIC ''m'' ''sp'' 10 (1 / 2)) 0)))) = [USER, ASSISTANT, USER, ASSISTANT]"
  using history_after_calls[OF scripted_calls] unfolding scripted_calls by simp

text \<open>
  C6. When the client is there (or has just been created) and the provider's send
  raises, \<open>chat\<close> returns that very error; the world afterwards is the world that the one
  failed send left, so nothing was sent a second time; and the history is what it was
  before the call.
\<close>

theorem chat_failure:
  assumes "ensure_client api a w = (Inr a1, w1)"
      and "send_request api a1 (request_messages a1 m h) w1 = (Inl e, w2)"
  shows "chat api m h a w = (Inl e, a1, w2)
       \<and> conversation_history a1 = conversation_history a"
  using assms by (simp add: chat_def ensure_client_history)

theorem chat_failure_witness:
  "chat scripted_api ''b'' True
     \<lparr>agent_class = OPENAI, model = ''gpt-4o'', system_prompt = '''', max_tokens = 10,
       temperature = 0,
       conversation_history = turn_messages [(''a'', ''re: a'')], client = None\<rparr> 1
   = (Inl (ProviderError ''request timed out''),
      \<lparr>agent_class = OPENAI, model = ''gpt-4o'', system_prompt = '''', max_tokens = 10,
        temperature = 0,
        conversation_history = turn_messages [(''a'', ''re: a'')],
        client = Some (Client OPENAI)\<rparr>, 2)"
  using chat_failure[of scripted_api
      "\<lparr>agent_class = OPENAI, model = ''gpt-4o'', system_prompt = '''', max_tokens = 10,
        temperature = 0,
        conversation_history = turn_messages [(''a'', ''re: a'')], client = None\<rparr>" 1
      "\<lparr>agent_class = OPENAI, model = ''gpt-4o'', system_prompt = '''', max_tokens = 10,
        temperature = 0,
        conversation_history = turn_messages [(''a'', ''re: a'')],
        client = Some (Client OPENAI)\<rparr>" 1 "''b''" True
      "ProviderError ''request timed out''" 2]
  by (simp add: ensure_client_def scripted_api_def scripted_send_def)

section \<open>Properties of the workflow engine\<close>

text \<open>
  C5. For a name that is not registered, \<open>run_workflow\<close> returns at once: the status is
  \<open>FAILED\<close>, no step is completed, the outputs are empty and there is exactly one error.
  The orchestrator and the world are those it was called with: no agent was created or
  asked.
\<close>

theorem run_workflow_unknown:
  assumes "workflows orch workflow_name = None"
  shows "run_workflow api settings configs workflow_name ctx orch w
         = (\<lparr>status = FAILED, steps_completed = 0, outputs = [],
              errors = [''Unknown workflow: '' @ workflow_name], duration = 0\<rparr>, orch, w)"
  using assms by (simp add: run_workflow_def)

theorem run_workflow_unknown_witness:
  "run_workflow scripted_api default_settings example_configs ''deploy''
     [(''requirement'', ''X'')] (new_orchestrator False) 0
   = (\<lparr>status = FAILED, steps_completed = 0, outputs = [],
        errors = [''Unknown workflow: deploy''], duration = 0\<rparr>, new_orchestrator False, 0)"
  using run_workflow_unknown[of "new_orchestrator False" "''deploy''" scripted_api
      default_settings example_configs "[(''requirement'', ''X'')]" 0]
  by (simp add: new_orchestrator_def register_default_workflows_def register_workflow_def)






















section \<open>Properties of the dependency context\<close>









section \<open>Properties of template substitution\<close>

lemma str_replace_absent:
  "old \<noteq> [] \<Longrightarrow> \<not> sublist old s \<Longrightarrow> str_replace old new s = s"
proof (induction s)
  case Nil
  then show ?case by (simp add: str_replace.simps)
next
  case (Cons c s)
  from Cons.prems(2) have np: "\<not> prefix old (c # s)" and ns: "\<not> sublist old s"
    by (simp_all add: sublist_Cons_right)
  from Cons.IH[OF Cons.prems(1) ns] np Cons.prems(1) show ?case
    by (subst str_replace.simps) simp
qed

lemma str_replace_leftmost:
  assumes "old \<noteq> []" "\<not> sublist old (pre @ butlast old)"
  shows "str_replace old new (pre @ old @ post) = pre @ new @ str_replace old new post"
  using assms(2)
proof (induction pre)
  case Nil
  from assms(1) show ?case by (subst str_replace.simps) simp
next
  case (Cons c pre)
  from Cons.prems have np: "\<not> prefix old (c # pre @ butlast old)"
    and ns: "\<not> sublist old (pre @ butlast old)"
    by (simp_all add: sublist_Cons_right)
  have "\<not> prefix old (c # pre @ old @ post)"
  proof
    assume p: "prefix old (c # pre @ old @ post)"
    have "old = butlast old @ [last old]" using assms(1) by simp
    then have "c # pre @ old @ post = (c # pre @ butlast old) @ (last old # post)"
      by (metis append.assoc append_Cons append_Nil)
    then have q: "prefix (c # pre @ butlast old) (c # pre @ old @ post)"
      by (metis prefixI)
    have "length old \<le> length (c # pre @ butlast old)" using assms(1) by simp
    from prefix_length_prefix[OF p q this] np show False by simp
  qed
  with Cons.IH[OF ns] assms(1) show ?case
    by (subst str_replace.simps) simp
qed

text \<open>
  C2, claim as stated: with the context \<open>{"a": "{b}", "b": "X"}\<close> the template \<open>{a}\<close>
  becomes \<open>X\<close>, not \<open>{b}\<close>: the value put in for \<open>a\<close> is substituted again when the
  loop reaches \<open>b\<close>.
\<close>

theorem substitution_not_single_pass:
  "assemble_prompt [(''a'', ''{b}''), (''b'', ''X'')] [] (mk_step BA ''{a}'' []) = ''X''
   \<and> assemble_prompt [(''a'', ''{b}''), (''b'', ''X'')] [] (mk_step BA ''{a}'' []) \<noteq> ''{b}''"
  by (simp add: assemble_prompt_def mk_step_def str_replace.simps)

text \<open>
  C2, amended. The context entries are applied one after the other, in the order of the
  context, each to the whole prompt as the entries before it left it; with no entry left
  the prompt is the result. One entry replaces every occurrence of its \<open>{key}\<close>, from
  left to right and without looking again at the value it has put in: a prompt in which
  \<open>{key}\<close> does not occur is passed on as it is; otherwise the text before the leftmost
  \<open>{key}\<close> stays, the value follows literally, and the same entry alone is applied to
  the text after that placeholder; the later entries then see the result, the value
  included. The prompt of a step is its instruction treated in this way, followed by the
  dependency context when the step has dependencies, and without a transform it is the
  prompt the step's agent is asked. The context \<open>{"requirement": "X"}\<close> turns
  \<open>Analyze {requirement} now\<close> into \<open>Analyze X now\<close>.
\<close>

theorem substitution_entry_by_entry:
  "replace_context_variables [] prompt = prompt
   \<and> (\<not> sublist (''{'' @ key @ ''}'') prompt
        \<longrightarrow> replace_context_variables ((key, val) # items) prompt
            = replace_context_variables items prompt)
   \<and> (\<not> sublist (''{'' @ key @ ''}'') (pre @ ''{'' @ key)
        \<longrightarrow> replace_context_variables ((key, val) # items) (pre @ ''{'' @ key @ ''}'' @ post)
            = replace_context_variables items
                (pre @ val @ replace_context_variables [(key, val)] post))
   \<and> assemble_prompt ctx outs step
       = replace_context_variables ctx (instruction step)
         @ (if depends_on step = [] then []
            else add_dependent_outputs (depends_on step) outs
                   ''\<newline>\<newline>---\<newline>Previous outputs:\<newline>'')
   \<and> (transform step = None
        \<longrightarrow> run_step api settings configs ctx step outs orch w
            = ask api settings configs (step_role step) (assemble_prompt ctx outs step) False orch w)
   \<and> assemble_prompt [(''requirement'', ''X'')] outs (mk_step r ''Analyze {requirement} now'' [])
       = ''Analyze X now''"
proof -
  have ne: "''{'' @ key @ ''}'' \<noteq> []" by simp
  have bl: "butlast (''{'' @ key @ ''}'') = ''{'' @ key"
    by (simp add: butlast_append)
  have 1: "replace_context_variables [] prompt = prompt" by simp
  have 2: "\<not> sublist (''{'' @ key @ ''}'') prompt
        \<longrightarrow> replace_context_variables ((key, val) # items) prompt
            = replace_context_variables items prompt"
    using str_replace_absent[OF ne, of prompt val] by simp
  have 3: "\<not> sublist (''{'' @ key @ ''}'') (pre @ ''{'' @ key)
        \<longrightarrow> replace_context_variables ((key, val) # items) (pre @ ''{'' @ key @ ''}'' @ post)
            = replace_context_variables items
                (pre @ val @ replace_context_variables [(key, val)] post)"
  proof
    assume a: "\<not> sublist (''{'' @ key @ ''}'') (pre @ ''{'' @ key)"
    have b: "\<not> sublist (''{'' @ key @ ''}'') (pre @ butlast (''{'' @ key @ ''}''))"
      unfolding bl by (rule a)
    from str_replace_leftmost[OF ne b, of val post]
    show "replace_context_variables ((key, val) # items) (pre @ ''{'' @ key @ ''}'' @ post)
            = replace_context_variables items
                (pre @ val @ replace_context_variables [(key, val)] post)"
      by simp
  qed
  have 4: "assemble_prompt ctx outs step
       = replace_context_variables ctx (instruction step)
         @ (if depends_on step = [] then []
            else add_dependent_outputs (depends_on step) outs
                   ''\<newline>\<newline>---\<newline>Previous outputs:\<newline>'')"
    by (simp add: assemble_prompt_def)
  have 5: "transform step = None
        \<longrightarrow> run_step api settings configs ctx step outs orch w
            = ask api settings configs (step_role step) (assemble_prompt ctx outs step) False orch w"
    by (simp add: run_step_def build_prompt_def)
  have 6: "assemble_prompt [(''requirement'', ''X'')] outs
             (mk_step r ''Analyze {requirement} now'' []) = ''Analyze X now''"
    by (simp add: assemble_prompt_def mk_step_def str_replace.simps)
  from 1 2 3 4 5 6 show ?thesis by blast
qed

text \<open>
  An example with a \<open>{\<close> before the first placeholder of the first entry, and with a
  value that holds a placeholder of an entry already applied.
\<close>

theorem substitution_entry_by_entry_witness:
  "replace_context_variables [(''code'', ''x = 1''), (''bug'', ''crash {code}'')]
     ''Bug: {bug}, code: {code}, file: {file}''
     = ''Bug: crash {code}, code: x = 1, file: {file}''
   \<and> fst (run_step scripted_api default_settings example_configs [(''bug'', ''crash'')]
            (mk_step QA ''Analyze {bug}'' []) [] triage_orchestrator 0)
       = Inr triage_qa_response"
proof -
  let ?items = "[(''bug'', ''crash {code}'')]"
  have a1: "\<not> sublist (''{'' @ ''code'' @ ''}'') (''Bug: {bug}, code: '' @ ''{'' @ ''code'')"
    by (simp add: sublist_code)
  have a2: "\<not> sublist (''{'' @ ''code'' @ ''}'') '', file: {file}''"
    by (simp add: sublist_code)
  have b1: "\<not> sublist (''{'' @ ''bug'' @ ''}'') (''Bug: '' @ ''{'' @ ''bug'')"
    by (simp add: sublist_code)
  have b2: "\<not> sublist (''{'' @ ''bug'' @ ''}'') '', code: x = 1, file: {file}''"
    by (simp add: sublist_code)
  have s1: "replace_context_variables [(''code'', ''x = 1'')] '', file: {file}'' = '', file: {file}''"
    using substitution_entry_by_entry[where key = "''code''" and val = "''x = 1''"
        and items = "[]" and prompt = "'', file: {file}''",
        THEN conjunct2, THEN conjunct1, THEN mp, OF a2]
      substitution_entry_by_entry[where prompt = "'', file: {file}''", THEN conjunct1]
    by (rule trans)
  have s2: "replace_context_variables ((''code'', ''x = 1'') # ?items)
              (''Bug: {bug}, code: '' @ ''{'' @ ''code'' @ ''}'' @ '', file: {file}'')
            = replace_context_variables ?items
                (''Bug: {bug}, code: '' @ ''x = 1''
                   @ replace_context_variables [(''code'', ''x = 1'')] '', file: {file}'')"
    by (rule substitution_entry_by_entry[where key = "''code''" and val = "''x = 1''"
          and items = ?items and pre = "''Bug: {bug}, code: ''" and post = "'', file: {file}''",
          THEN conjunct2, THEN conjunct2, THEN conjunct1, THEN mp, OF a1])
  have s3: "replace_context_variables [(''bug'', ''crash {code}'')] '', code: x = 1, file: {file}''
              = '', code: x = 1, file: {file}''"
    using substitution_entry_by_entry[where key = "''bug''" and val = "''crash {code}''"
        and items = "[]" and prompt = "'', code: x = 1, file: {file}''",
        THEN conjunct2, THEN conjunct1, THEN mp, OF b2]
      substitution_entry_by_entry[where prompt = "'', code: x = 1, file: {file}''",
        THEN conjunct1]
    by (rule trans)
  have s4: "replace_context_variables ((''bug'', ''crash {code}'') # [])
              (''Bug: '' @ ''{'' @ ''bug'' @ ''}'' @ '', code: x = 1, file: {file}'')
            = replace_context_variables []
                (''Bug: '' @ ''crash {code}''
                   @ replace_context_variables [(''bug'', ''crash {code}'')]
                       '', code: x = 1, file: {file}'')"
    by (rule substitution_entry_by_entry[where key = "''bug''" and val = "''crash {code}''"
          and items = "[]" and pre = "''Bug: ''" and post = "'', code: x = 1, file: {file}''",
          THEN conjunct2, THEN conjunct2, THEN conjunct1, THEN mp, OF b1])
  have s5: "replace_context_variables [] ''Bug: crash {code}, code: x = 1, file: {file}''
              = ''Bug: crash {code}, code: x = 1, file: {file}''"
    by (rule substitution_entry_by_entry[THEN conjunct1])
  have first: "replace_context_variables [(''code'', ''x = 1''), (''bug'', ''crash {code}'')]
     ''Bug: {bug}, code: {code}, file: {file}''
     = ''Bug: crash {code}, code: x = 1, file: {file}''"
    using s2 s4 s5 unfolding s1 s3 by (simp del: replace_context_variables.simps)
  have "run_step scripted_api default_settings example_configs [(''bug'', ''crash'')]
            (mk_step QA ''Analyze {bug}'' []) [] triage_orchestrator 0
        = ask scripted_api default_settings example_configs
            (step_role (mk_step QA ''Analyze {bug}'' []))
            (assemble_prompt [(''bug'', ''crash'')] [] (mk_step QA ''Analyze {bug}'' []))
            False triage_orchestrator 0"
    by (rule substitution_entry_by_entry[THEN conjunct2, THEN conjunct2, THEN conjunct2,
          THEN conjunct2, THEN conjunct1, THEN mp]) (simp add: mk_step_def)
  then have second: "fst (run_step scripted_api default_settings example_configs
            [(''bug'', ''crash'')] (mk_step QA ''Analyze {bug}'' []) [] triage_orchestrator 0)
       = Inr triage_qa_response"
    by (simp add: ask_def get_agent_def create_by_role_def create_by_provider_def
        get_role_config_def example_configs_def register_role_def default_settings_def
        new_agent_def chat_def ensure_client_def request_messages_def scripted_api_def
        scripted_send_def user_msg_def assistant_msg_def register_workflow_def
        triage_orchestrator_def triage_qa_response_def assemble_prompt_def mk_step_def
        str_replace.simps)
  from first second show ?thesis by simp
qed

section \<open>Properties of the agent factory\<close>

lemma create_by_provider_total:
  "create_by_provider settings provider m sp mt t
     = Inr (new_agent provider m sp (int_or mt (default_max_tokens settings))
              (if_not_none t (default_temperature settings)))"
  by (cases provider) (simp_all add: create_by_provider_def)

lemma create_by_role_result:
  assumes "create_by_role settings configs r sp mt t = Inr a"
  shows "\<exists>rc provider m. get_role_config configs r = Inr rc
       \<and> a = new_agent provider m (str_or sp (rc_system_prompt rc))
               (int_or (Some (int_or mt (rc_max_tokens rc))) (default_max_tokens settings))
               (if_not_none t (rc_temperature rc))"
  using assms
  by (auto simp: create_by_role_def create_by_provider_total
      split: sum.splits option.splits if_splits)

text \<open>
  C7, claim as stated: \<open>create_by_role\<close> called for the QA role with the system prompt
  override \<open>""\<close> and the override \<open>max_tokens = 0\<close> builds an agent with the role's own
  system prompt and the role's own 4096 tokens: both overrides were supplied and neither
  was taken.
\<close>

theorem create_by_role_falsy_override:
  "create_by_role default_settings example_configs QA (Some '''') (Some 0) None
     = Inr \<lparr>agent_class = OPENAI, model = ''gpt-4o'',
            system_prompt = ''You are an Expert QA Engineer.'', max_tokens = 4096,
            temperature = 4 / 10, conversation_history = [], client = None\<rparr>
   \<and> ''You are an Expert QA Engineer.'' \<noteq> ''''
   \<and> (4096 :: int) \<noteq> 0"
  by (simp add: create_by_role_def create_by_provider_def get_role_config_def
      example_configs_def register_role_def default_settings_def new_agent_def)

text \<open>
  C7, amended. When \<open>create_by_role\<close> builds an agent, the role has a configuration,
  and: a supplied system prompt that is not empty is the agent's system prompt, and with
  none supplied or the empty one it is the role's; a supplied \<open>max_tokens\<close> that is not
  0 is the agent's, and with none supplied or 0 it is the role's (the process-wide
  default when the role's is 0); a supplied temperature, 0 included, is the agent's,
  and with none supplied it is the role's. \<open>create_by_provider\<close> always builds an agent,
  and with \<open>max_tokens\<close> or the temperature not supplied the agent has the process-wide
  default for it.
\<close>

theorem create_by_role_overrides:
  assumes "create_by_role settings configs r sp mt t = Inr a"
  shows "\<exists>rc. get_role_config configs r = Inr rc
       \<and> (\<forall>s. sp = Some s \<and> s \<noteq> [] \<longrightarrow> system_prompt a = s)
       \<and> (sp = None \<or> sp = Some [] \<longrightarrow> system_prompt a = rc_system_prompt rc)
       \<and> (\<forall>n. mt = Some n \<and> n \<noteq> 0 \<longrightarrow> max_tokens a = n)
       \<and> (mt = None \<or> mt = Some 0 \<longrightarrow>
            max_tokens a = (if rc_max_tokens rc = 0 then default_max_tokens settings
                            else rc_max_tokens rc))
       \<and> (\<forall>x. t = Some x \<longrightarrow> temperature a = x)
       \<and> (t = None \<longrightarrow> temperature a = rc_temperature rc)
       \<and> (\<exists>b. create_by_provider settings provider m psp pmt pt = Inr b
              \<and> (pmt = None \<longrightarrow> max_tokens b = default_max_tokens settings)
              \<and> (pt = None \<longrightarrow> temperature b = default_temperature settings))"
proof -
  from create_by_role_result[OF assms] obtain rc p' m' where
    rc: "get_role_config configs r = Inr rc"
    and a: "a = new_agent p' m' (str_or sp (rc_system_prompt rc))
               (int_or (Some (int_or mt (rc_max_tokens rc))) (default_max_tokens settings))
               (if_not_none t (rc_temperature rc))"
    by blast
  have sp1: "\<forall>s. sp = Some s \<and> s \<noteq> [] \<longrightarrow> system_prompt a = s"
    by (simp add: a new_agent_def)
  have sp2: "sp = None \<or> sp = Some [] \<longrightarrow> system_prompt a = rc_system_prompt rc"
    by (auto simp: a new_agent_def)
  have mt1: "\<forall>n. mt = Some n \<and> n \<noteq> 0 \<longrightarrow> max_tokens a = n"
    by (simp add: a new_agent_def)
  have mt2: "mt = None \<or> mt = Some 0 \<longrightarrow>
            max_tokens a = (if rc_max_tokens rc = 0 then default_max_tokens settings
                            else rc_max_tokens rc)"
    by (auto simp: a new_agent_def)
  have t1: "\<forall>x. t = Some x \<longrightarrow> temperature a = x"
    by (simp add: a new_agent_def)
  have t2: "t = None \<longrightarrow> temperature a = rc_temperature rc"
    by (simp add: a new_agent_def)
  have prov: "\<exists>b. create_by_provider settings provider m psp pmt pt = Inr b
              \<and> (pmt = None \<longrightarrow> max_tokens b = default_max_tokens settings)
              \<and> (pt = None \<longrightarrow> temperature b = default_temperature settings)"
    by (simp add: create_by_provider_total new_agent_def)
  from rc sp1 sp2 mt1 mt2 t1 t2 prov show ?thesis by blast
qed

lemma create_qa_terse:
  "create_by_role default_settings example_configs QA (Some ''Be terse.'') None (Some 0)
     = Inr \<lparr>agent_class = OPENAI, model = ''gpt-4o'', system_prompt = ''Be terse.'',
            max_tokens = 4096, temperature = 0, conversation_history = [], client = None\<rparr>"
  by (simp add: create_by_role_def create_by_provider_def get_role_config_def
      example_configs_def register_role_def default_settings_def new_agent_def)

theorem create_by_role_overrides_witness:
  "system_prompt \<lparr>agent_class = OPENAI, model = ''gpt-4o'', system_prompt = ''Be terse.'',
            max_tokens = 4096, temperature = 0, conversation_history = [], client = None\<rparr>
     = ''Be terse.''
   \<and> max_tokens \<lparr>agent_class = OPENAI, model = ''gpt-4o'', system_prompt = ''Be terse.'',
            max_tokens = 4096, temperature = 0, conversation_history = [], client = None\<rparr>
     = rc_max_tokens (the (example_configs ''qa''))
   \<and> temperature \<lparr>agent_class = OPENAI, model = ''gpt-4o'', system_prompt = ''Be terse.'',
            max_tokens = 4096, temperature = 0, conversation_history = [], client = None\<rparr>
     = 0
   \<and> (\<exists>b. create_by_provider default_settings GOOGLE ''gemini-2.0-flash'' '''' None None = Inr b
          \<and> max_tokens b = 8192 \<and> temperature b = 7 / 10)"
proof -
  from create_by_role_overrides[OF create_qa_terse, where provider = GOOGLE
      and m = "''gemini-2.0-flash''" and psp = "''''" and pmt = None and pt = None]
  obtain rc where rc: "get_role_config example_configs QA = Inr rc"
    and mt: "max_tokens \<lparr>agent_class = OPENAI, model = ''gpt-4o'', system_prompt = ''Be terse.'',
            max_tokens = 4096, temperature = 0, conversation_history = [], client = None\<rparr>
          = (if rc_max_tokens rc = 0 then default_max_tokens default_settings
             else rc_max_tokens rc)"
    and prov: "\<exists>b. create_by_provider default_settings GOOGLE ''gemini-2.0-flash'' '''' None None
                   = Inr b
          \<and> max_tokens b = default_max_tokens default_settings
          \<and> temperature b = default_temperature default_settings"
    by auto
  from rc have "rc = the (example_configs ''qa'')"
    by (simp add: get_role_config_def example_configs_def register_role_def)
  with mt prov show ?thesis
    by (simp add: example_configs_def register_role_def default_settings_def)
qed

section \<open>Properties of the file store\<close>










text \<open>
  The order of the two \<open>lstrip\<close> calls: a backslash before a slash leaves the slash in
  place, and the path is then joined as an absolute one. The same happens after a
  leading slash.
\<close>

lemma resolve_path_backslash_slash:
  "resolve_path [''ws''] (CHR 0x5C # ''/ws/x'') = Inr [''ws'', ''x'']
   \<and> resolve_path [''ws''] (CHR ''/'' # CHR 0x5C # ''/ws/x'') = Inr [''ws'', ''x'']
   \<and> resolve_path [''ws''] (CHR 0x5C # ''/etc/passwd'') = Inl (escape_error (CHR 0x5C # ''/etc/passwd''))"
  by (simp add: resolve_path_def lstrip_def path_join_def is_absolute_def path_parts_def
      escape_error_def)



lemma resolve_escape: "resolve_path [''ws''] ''../etc/passwd'' = Inl (escape_error ''../etc/passwd'')"
  by (simp add: resolve_path_def lstrip_def path_join_def is_absolute_def path_parts_def)



text \<open>
  C10. When the path argument escapes the sandbox, \<open>list_directory\<close>, \<open>search_files\<close> and
  \<open>grep\<close> return the empty list, where \<open>read_file\<close> and \<open>write_file\<close> return a failure
  result with the message of the error. The same holds for any other exception in the
  body of the three: whatever the body raises, the result is the empty list.
\<close>

theorem list_operations_swallow_errors:
  assumes "resolve_path workspace_root p = Inl e"
  shows "list_directory workspace_root fs p = []
       \<and> search_files fnmatch workspace_root fs pattern p = []
       \<and> grep fnmatch lower strip workspace_root fs search_term p file_pattern = []
       \<and> read_file workspace_root fs p = \<lparr>success = False, message = str_error e, data = None\<rparr>
       \<and> write_file workspace_root p new_content fs
           = (\<lparr>success = False, message = str_error e, data = None\<rparr>, fs)
       \<and> (\<forall>q err. list_directory_body workspace_root fs q = Inl err
              \<longrightarrow> list_directory workspace_root fs q = [])
       \<and> (\<forall>q err. search_files_body fnmatch workspace_root fs pattern q = Inl err
              \<longrightarrow> search_files fnmatch workspace_root fs pattern q = [])
       \<and> (\<forall>q err. grep_body fnmatch lower strip workspace_root fs search_term q file_pattern = Inl err
              \<longrightarrow> grep fnmatch lower strip workspace_root fs search_term q file_pattern = [])"
  using assms
  by (simp add: list_directory_def list_directory_body_def search_files_def
      search_files_body_def grep_def grep_body_def read_file_def write_file_def)

lemma locked_directory:
  "list_directory_body [''ws''] (Dir True [(''ws'', Dir True [(''locked'', Dir False [])])]) ''locked''
     = Inl (PermissionError ''/ws/locked'')"
  by (simp add: list_directory_body_def resolve_path_def lstrip_def path_join_def
      is_absolute_def path_parts_def str_abs_def)

theorem list_operations_swallow_errors_witness:
  "list_directory [''ws''] example_fs ''../etc/passwd'' = []
   \<and> search_files fnmatch_simple [''ws''] example_fs ''*'' ''../etc/passwd'' = []
   \<and> grep fnmatch_simple lower_ascii strip_ascii [''ws''] example_fs ''root'' ''../etc/passwd'' ''*''
       = []
   \<and> read_file [''ws''] example_fs ''../etc/passwd''
       = \<lparr>success = False, message = str_error (escape_error ''../etc/passwd''), data = None\<rparr>
   \<and> list_directory [''ws''] (Dir True [(''ws'', Dir True [(''locked'', Dir False [])])]) ''locked''
       = []"
proof -
  note a = list_operations_swallow_errors[OF resolve_escape, where fs = example_fs
      and fnmatch = fnmatch_simple and pattern = "''*''" and search_term = "''root''"
      and file_pattern = "''*''" and lower = lower_ascii and strip = strip_ascii]
  note b = list_operations_swallow_errors[OF resolve_escape,
      where fs = "Dir True [(''ws'', Dir True [(''locked'', Dir False [])])]"]
  from b locked_directory
  have "list_directory [''ws''] (Dir True [(''ws'', Dir True [(''locked'', Dir False [])])]) ''locked''
       = []" by blast
  with a show ?thesis by simp
qed









lemma lookup_new_file: "lookup (new_file xs new_content) ys = Some n \<Longrightarrow> prefix ys xs"
proof (induction xs arbitrary: ys)
  case Nil
  then show ?case by (cases ys) (auto simp: written_file_def)
next
  case (Cons x xs)
  then show ?case by (cases ys) (auto split: if_splits)
qed

lemma write_keeps_other_paths:
  "(\<forall>n'. write_node n p new_content = Inr n'
       \<longrightarrow> (\<forall>q. \<not> prefix q p \<longrightarrow> lookup n' q = lookup n q))"
  "(\<forall>es'. write_in es x xs new_content = Inr es'
       \<longrightarrow> (\<forall>y ys. \<not> prefix (y # ys) (x # xs) \<longrightarrow> lookup_in es' y ys = lookup_in es y ys))"
proof (induction n p new_content and es x xs new_content rule: write_node_write_in.induct)
  case (1 sz c new_content)
  show ?case
  proof (intro allI impI)
    fix n' and q :: path
    assume "write_node (File sz c) [] new_content = Inr n'" "\<not> prefix q []"
    then show "lookup n' q = lookup (File sz c) q" by (cases q) (auto simp: written_file_def)
  qed
next
  case (2 r es new_content)
  then show ?case by simp
next
  case (3 sz c x xs new_content)
  then show ?case by simp
next
  case (4 r es x xs new_content)
  show ?case
  proof (intro allI impI)
    fix n' q assume w: "write_node (Dir r es) (x # xs) new_content = Inr n'"
      and q: "\<not> prefix q (x # xs)"
    from w obtain es' where es': "write_in es x xs new_content = Inr es'" "n' = Dir r es'"
      by (auto split: sum.splits)
    from q obtain y ys where "q = y # ys" by (cases q) auto
    with 4 es' q show "lookup n' q = lookup (Dir r es) q" by simp
  qed
next
  case (5 x xs new_content)
  show ?case
  proof (intro allI impI)
    fix es' y ys assume w: "write_in [] x xs new_content = Inr es'"
      and q: "\<not> prefix (y # ys) (x # xs)"
    have "lookup (new_file xs new_content) ys = None" if "x = y"
    proof (cases "lookup (new_file xs new_content) ys")
      case None
      then show ?thesis .
    next
      case (Some n)
      from lookup_new_file[OF this] that q show ?thesis by simp
    qed
    with w show "lookup_in es' y ys = lookup_in [] y ys" by auto
  qed
next
  case (6 name child es x xs new_content)
  show ?case
  proof (intro allI impI)
    fix es' y ys assume w: "write_in ((name, child) # es) x xs new_content = Inr es'"
      and q: "\<not> prefix (y # ys) (x # xs)"
    show "lookup_in es' y ys = lookup_in ((name, child) # es) y ys"
    proof (cases "name = x")
      case True
      with w obtain child' where c: "write_node child xs new_content = Inr child'"
        "es' = (name, child') # es" by (auto split: sum.splits)
      from 6(1)[OF True] c(1) have "\<forall>q. \<not> prefix q xs \<longrightarrow> lookup child' q = lookup child q"
        by blast
      with c(2) q True show ?thesis by auto
    next
      case False
      with w obtain es'' where c: "write_in es x xs new_content = Inr es''"
        "es' = (name, child) # es''" by (auto split: sum.splits)
      from 6(2)[OF False] c(1) q
      have "lookup_in es'' y ys = lookup_in es y ys" by blast
      with c(2) show ?thesis by simp
    qed
  qed
qed

lemma write_keeps_directories:
  "(\<forall>n'. write_node n p new_content = Inr n'
       \<longrightarrow> (\<forall>q r es. lookup n q = Some (Dir r es) \<longrightarrow> (\<exists>es'. lookup n' q = Some (Dir r es'))))"
  "(\<forall>es'. write_in es0 x xs new_content = Inr es'
       \<longrightarrow> (\<forall>y ys r es. lookup_in es0 y ys = Some (Dir r es)
              \<longrightarrow> (\<exists>es''. lookup_in es' y ys = Some (Dir r es''))))"
proof (induction n p new_content and es0 x xs new_content rule: write_node_write_in.induct)
  case (1 sz c new_content)
  show ?case
  proof (intro allI impI)
    fix n' q r es assume "write_node (File sz c) [] new_content = Inr n'"
      "lookup (File sz c) q = Some (Dir r es)"
    then show "\<exists>es'. lookup n' q = Some (Dir r es')" by (cases q) (auto simp: written_file_def)
  qed
next
  case (2 r es new_content)
  then show ?case by simp
next
  case (3 sz c x xs new_content)
  then show ?case by simp
next
  case (4 r0 es0 x xs new_content)
  show ?case
  proof (intro allI impI)
    fix n' q r es assume w: "write_node (Dir r0 es0) (x # xs) new_content = Inr n'"
      and l: "lookup (Dir r0 es0) q = Some (Dir r es)"
    from w obtain es' where es': "write_in es0 x xs new_content = Inr es'" "n' = Dir r0 es'"
      by (auto split: sum.splits)
    show "\<exists>es'. lookup n' q = Some (Dir r es')"
    proof (cases q)
      case Nil
      with l es' show ?thesis by simp
    next
      case (Cons y ys)
      with l have "lookup_in es0 y ys = Some (Dir r es)" by simp
      with 4 es'(1) have "\<exists>es''. lookup_in es' y ys = Some (Dir r es'')" by blast
      with Cons es'(2) show ?thesis by simp
    qed
  qed
next
  case (5 x xs new_content)
  then show ?case by simp
next
  case (6 name child es0 x xs new_content)
  show ?case
  proof (intro allI impI)
    fix es' y ys r es assume w: "write_in ((name, child) # es0) x xs new_content = Inr es'"
      and l: "lookup_in ((name, child) # es0) y ys = Some (Dir r es)"
    show "\<exists>es''. lookup_in es' y ys = Some (Dir r es'')"
    proof (cases "name = x")
      case True
      with w obtain child' where c: "write_node child xs new_content = Inr child'"
        "es' = (name, child') # es0" by (auto split: sum.splits)
      from 6(1)[OF True] c(1)
      have "\<forall>q r es. lookup child q = Some (Dir r es) \<longrightarrow> (\<exists>es'. lookup child' q = Some (Dir r es'))"
        by blast
      with c(2) l show ?thesis by (auto split: if_splits)
    next
      case False
      with w obtain es1 where c: "write_in es0 x xs new_content = Inr es1"
        "es' = (name, child) # es1" by (auto split: sum.splits)
      from 6(2)[OF False] c(1)
      have "\<forall>y ys r es. lookup_in es0 y ys = Some (Dir r es)
              \<longrightarrow> (\<exists>es''. lookup_in es1 y ys = Some (Dir r es''))" by blast
      with c(2) l show ?thesis by (auto split: if_splits)
    qed
  qed
qed

lemma lookup_ancestor:
  "(lookup n (a @ b) = Some m \<longrightarrow> b \<noteq> [] \<longrightarrow> (\<exists>r es. lookup n a = Some (Dir r es)))"
  "(lookup_in es x (a' @ b) = Some m \<longrightarrow> b \<noteq> [] \<longrightarrow> (\<exists>r es'. lookup_in es x a' = Some (Dir r es')))"
proof (induction n a and es x a' arbitrary: b and b rule: lookup_lookup_in.induct)
  case (1 n)
  then show ?case by (cases n; cases b) auto
next
  case (2 sz c x xs)
  then show ?case by simp
next
  case (3 r es x xs)
  then show ?case by simp
next
  case (4 x xs)
  then show ?case by simp
next
  case (5 name child es x xs)
  then show ?case by simp
qed

text \<open>
  A write through the file store changes nothing that can be observed at a path outside
  the workspace root, when the root is there as a directory.
\<close>

lemma write_file_confined:
  assumes "write_file workspace_root file_path new_content fs = (res, fs')"
      and "lookup fs workspace_root = Some (Dir r es)"
      and "\<not> prefix workspace_root q"
  shows "stat_at fs' q = stat_at fs q"
proof (cases "resolve_path workspace_root file_path")
  case (Inl e)
  with assms(1) show ?thesis by (simp add: write_file_def)
next
  case (Inr full_path)
  then have under: "prefix workspace_root full_path"
    by (auto simp: resolve_path_def Let_def split: if_splits)
  show ?thesis
  proof (cases "write_node fs full_path new_content")
    case (Inl e)
    with Inr assms(1) show ?thesis by (simp add: write_file_def)
  next
    case w: (Inr fs1)
    with Inr assms(1) have fs': "fs' = fs1" by (simp add: write_file_def)
    show ?thesis
    proof (cases "prefix q full_path")
      case False
      with write_keeps_other_paths(1)[of fs full_path new_content] w fs'
      show ?thesis by (simp add: stat_at_def)
    next
      case True
      with under assms(3) have "strict_prefix q workspace_root"
        by (metis prefix_same_cases strict_prefix_def)
      then obtain b where b: "workspace_root = q @ b" "b \<noteq> []"
        by (auto simp: strict_prefix_def prefix_def)
      with lookup_ancestor(1)[of fs q b "Dir r es"] assms(2)
      obtain r' es' where d: "lookup fs q = Some (Dir r' es')" by auto
      with write_keeps_directories(1)[of fs full_path new_content] w fs'
      obtain es'' where "lookup fs' q = Some (Dir r' es'')" by blast
      with d show ?thesis by (simp add: stat_at_def)
    qed
  qed
qed

end
